theory Spec2Isabelle
  imports Complex_Main "HOL-Library.Multiset"
begin

section \<open>Numbers\<close>

text \<open>
  The program computes with JavaScript numbers. They are modelled as real numbers: every
  arithmetic operation is the exact one, \<open>Math.tanh\<close> and \<open>Math.sqrt\<close> are the real
  functions \<^const>\<open>tanh\<close> and \<^const>\<open>sqrt\<close>, and the rounding of IEEE doubles, \<open>NaN\<close> and
  \<open>Infinity\<close> are outside the model (a division by zero, which HOL evaluates to \<open>0\<close>, is
  kept away from the theorems by their hypotheses). \<open>Math.round\<close> is \<^const>\<open>round\<close>
  (half-way cases go up), \<open>Math.floor\<close> and \<open>Math.ceil\<close> are \<^const>\<open>floor\<close> and
  \<^const>\<open>ceiling\<close>.
\<close>

text \<open>
  \<open>+x.toFixed(d)\<close>: the decimal with \<open>d\<close> fraction digits nearest to \<open>x\<close>, read back
  as a number. \<open>toFixed\<close> works on the absolute value and, of two nearest candidates,
  takes the larger one.
\<close>

definition toFixed :: "nat \<Rightarrow> real \<Rightarrow> real" where
  "toFixed d x =
     (if x < 0 then - (of_int \<lfloor>- x * 10 ^ d + 1 / 2\<rfloor> / 10 ^ d)
      else of_int \<lfloor>x * 10 ^ d + 1 / 2\<rfloor> / 10 ^ d)"

section \<open>Genome decoders (backtest.ts)\<close>

definition decodeFastMA :: "real \<Rightarrow> int" where
  "decodeFastMA v = max 5 (round (5 + v * 45))"

definition decodeSlowMA :: "real \<Rightarrow> int" where
  "decodeSlowMA v = max 20 (round (20 + v * 180))"

definition decodeAssetIdx :: "real \<Rightarrow> int" where
  "decodeAssetIdx v = min 27 (max 0 (round (v * 27)))"

text \<open>
  The symbol table \<open>TOP_15\<close> and the label table \<open>SYMBOL_LABEL\<close> are imported from
  \<open>priceData\<close>, which is not among the sources; both are parameters here. Reading an
  array beyond its end gives \<open>undefined\<close> in the source, \<open>None\<close> here.
\<close>

definition assetSymbol :: "string list \<Rightarrow> real \<Rightarrow> string option" where
  "assetSymbol TOP_15 assetIdxV =
     (let i = nat (decodeAssetIdx assetIdxV)
      in if i < length TOP_15 then Some (TOP_15 ! i) else None)"

definition assetLabel :: "string list \<Rightarrow> (string \<times> string) list \<Rightarrow> real \<Rightarrow> string" where
  "assetLabel TOP_15 SYMBOL_LABEL assetIdxV =
     (case assetSymbol TOP_15 assetIdxV of
        None \<Rightarrow> ''BTC''
      | Some symb \<Rightarrow> (case map_of SYMBOL_LABEL symb of None \<Rightarrow> ''BTC'' | Some l \<Rightarrow> l))"

datatype archetype = Momentum | Defensive | Volatility | MeanReversion | Hybrid

definition archetypeFromGenome :: "real \<Rightarrow> real \<Rightarrow> archetype" where
  "archetypeFromGenome fastMAv slowMAv =
     (let f = decodeFastMA fastMAv; s = decodeSlowMA slowMAv; spread = s - f
      in if f \<le> 10 \<and> spread \<le> 25 then Momentum
         else if s \<ge> 130 then Defensive
         else if spread \<le> 15 then Volatility
         else if f \<ge> 25 \<and> s \<ge> 80 then MeanReversion
         else Hybrid)"

section \<open>Simple moving averages by prefix sums\<close>

text \<open>\<open>prefixFrom acc prices\<close> is the array \<open>prefix\<close> of \<open>computeSMA\<close>, started at \<open>acc\<close>.\<close>

fun prefixFrom :: "real \<Rightarrow> real list \<Rightarrow> real list" where
  "prefixFrom acc [] = [acc]"
| "prefixFrom acc (p # ps) = acc # prefixFrom (acc + p) ps"

definition computeSMA :: "real list \<Rightarrow> int \<Rightarrow> real option list" where
  "computeSMA prices period =
     (let n = length prices; prefix = prefixFrom 0 prices
      in map (\<lambda>i. if int i < period - 1 then None
                  else Some ((prefix ! (i + 1) - prefix ! nat (int i + 1 - period)) / real_of_int period))
             [0..<n])"

section \<open>Fitness formula\<close>

definition computeFitness :: "real \<Rightarrow> real \<Rightarrow> real \<Rightarrow> real \<Rightarrow> real" where
  "computeFitness sharpe totalReturnPct winRatePct maxDrawdownPct =
     (let sNorm = (min (max sharpe (-2)) 4 + 2) / 6;
          rNorm = (min (max totalReturnPct (-50)) 150 + 50) / 200;
          wNorm = winRatePct / 100;
          dNorm = 1 - min (max maxDrawdownPct 0) 60 / 60;
          raw = 0.40 * sNorm + 0.30 * rNorm + 0.20 * wNorm + 0.10 * dNorm
      in toFixed 1 (min (max raw 0) 1 * 100))"

section \<open>The period correction of the simulator\<close>

text \<open>
  The first lines of \<open>runBacktest\<close>: the two decoded periods, the slow one bumped when it
  does not exceed the fast one.
\<close>

definition correctedPeriods :: "real \<Rightarrow> real \<Rightarrow> int \<times> int" where
  "correctedPeriods fastMAv slowMAv =
     (let fastP = decodeFastMA fastMAv; slowP = decodeSlowMA slowMAv
      in if fastP \<ge> slowP
         then (fastP, fastP + max 10 \<lceil>real_of_int fastP * 0.25\<rceil>)
         else (fastP, slowP))"

section \<open>Price bars, trade signals and the result of a backtest\<close>

text \<open>The field \<open>open\<close> of a bar is called \<open>open_px\<close>, the \<open>date\<close> of a signal \<open>signalDate\<close>.\<close>

record OHLCVBar =
  date :: string
  open_px :: real
  high :: real
  low :: real
  close :: real
  volume :: real

datatype action = Entry | Exit

record TradeSignal =
  signalDate :: string
  price :: real
  action :: action
  exposure :: real

record BacktestResult =
  totalReturn :: real
  sharpe :: real
  maxDrawdown :: real
  winRate :: real
  trades :: nat
  fitness :: real
  equityCurve :: "(string \<times> real) list"
  tradeSignals :: "TradeSignal list"
  fastPeriod :: int
  slowPeriod :: int
  asset :: string

section \<open>The bar loop of runBacktest\<close>

text \<open>
  The local variables of \<open>runBacktest\<close> that the loop updates. \<open>curve\<close> is the local
  \<open>equityCurve\<close> (pairs of date and equity) and \<open>signals\<close> the local \<open>tradeSignals\<close>;
  \<open>null\<close> is \<open>None\<close>.
\<close>

record sim =
  cash :: real
  position :: real
  currentExposure :: real
  entryEquity :: real
  wins :: nat
  losses :: nat
  curve :: "(string \<times> real) list"
  signals :: "TradeSignal list"
  dailyReturns :: "real list"
  prevFSMA :: "real option"
  prevSSMA :: "real option"
  peak :: real
  maxDD :: real

definition initSim :: "real \<Rightarrow> sim" where
  "initSim initialCapital =
     \<lparr>cash = initialCapital, position = 0, currentExposure = 0, entryEquity = 0,
      wins = 0, losses = 0, curve = [], signals = [], dailyReturns = [],
      prevFSMA = None, prevSSMA = None, peak = initialCapital, maxDD = 0\<rparr>"

text \<open>The expression \<open>(1 - riskAversion) * Math.tanh(((fSMA - sSMA) / sSMA) * 15) * 0.99\<close>.\<close>

definition exposureOf :: "real \<Rightarrow> real \<Rightarrow> real \<Rightarrow> real" where
  "exposureOf riskAversion fSMA sSMA =
     (1 - riskAversion) * tanh (((fSMA - sSMA) / sSMA) * 15) * 0.99"

text \<open>The variable \<open>targetExposure\<close> of a bar: zero unless the fast average is above the slow one.\<close>

definition targetExposure :: "real \<Rightarrow> real \<Rightarrow> real \<Rightarrow> real" where
  "targetExposure riskAversion fSMA sSMA =
     (if fSMA > sSMA then exposureOf riskAversion fSMA sSMA else 0)"

text \<open>
  Mark-to-market part of the loop body: the daily return (skipped at bar 0), the equity
  curve point rounded to two decimals, the running peak and the maximal drawdown.
\<close>

definition markBar :: "real \<Rightarrow> OHLCVBar \<Rightarrow> nat \<Rightarrow> sim \<Rightarrow> sim" where
  "markBar initialCapital bar i st =
     (let equity = cash st + position st * close bar;
          drs = (if i > 0
                 then (let prevEquity = (if curve st = [] then initialCapital
                                         else snd (last (curve st)))
                       in dailyReturns st @ [(equity - prevEquity) / prevEquity])
                 else dailyReturns st);
          pk = (if equity > peak st then equity else peak st);
          dd = (if pk > 0 then ((pk - equity) / pk) * 100 else 0)
      in st\<lparr>dailyReturns := drs,
            curve := curve st @ [(date bar, toFixed 2 equity)],
            peak := pk,
            maxDD := (if dd > maxDD st then dd else maxDD st)\<rparr>)"

text \<open>
  Crossover detection: the signal list after looking at the averages of this bar and of
  the previous one. Nothing is recorded while a previous average is \<open>null\<close>.
\<close>

definition crossSignals :: "real \<Rightarrow> OHLCVBar \<Rightarrow> real \<Rightarrow> real \<Rightarrow> sim \<Rightarrow> TradeSignal list" where
  "crossSignals riskAversion bar fSMA sSMA st =
     (case prevFSMA st of
        None \<Rightarrow> signals st
      | Some pf \<Rightarrow>
          (case prevSSMA st of
             None \<Rightarrow> signals st
           | Some ps \<Rightarrow>
               if fSMA > sSMA \<and> pf \<le> ps
               then signals st @
                      [\<lparr>signalDate = date bar, price = close bar, action = Entry,
                        exposure = toFixed 4 (exposureOf riskAversion fSMA sSMA)\<rparr>]
               else if fSMA \<le> sSMA \<and> pf > ps
               then signals st @
                      [\<lparr>signalDate = date bar, price = close bar, action = Exit,
                        exposure = 0\<rparr>]
               else signals st))"

text \<open>
  The rebalancing part of the loop body, reached when the exposure shift exceeds one per
  cent: buy (branch \<open>delta > 0\<close>) or sell (branch \<open>delta < 0\<close>) the difference to the
  target position, close the position when what is left is below half a per cent of
  equity, and recompute the current exposure.
\<close>

definition buy :: "real \<Rightarrow> real \<Rightarrow> real \<Rightarrow> sim \<Rightarrow> sim" where
  "buy equity px delta st =
     (let cost = min (delta * px) (cash st);
          actualUnits = cost / px
      in st\<lparr>position := position st + actualUnits,
            cash := cash st - cost,
            entryEquity := (if currentExposure st = 0 then equity else entryEquity st)\<rparr>)"

definition sell :: "real \<Rightarrow> real \<Rightarrow> real \<Rightarrow> sim \<Rightarrow> sim" where
  "sell equity px delta st =
     (let actualUnits = min \<bar>delta\<bar> (position st);
          proceeds = actualUnits * px;
          st1 = st\<lparr>position := position st - actualUnits, cash := cash st + proceeds\<rparr>
      in if position st1 * px < equity * 0.005
         then (let exitEquity = cash st1 + position st1 * px;
                   st2 = (if exitEquity > entryEquity st1
                          then st1\<lparr>wins := wins st1 + 1\<rparr>
                          else st1\<lparr>losses := losses st1 + 1\<rparr>)
               in st2\<lparr>position := 0, cash := exitEquity\<rparr>)
         else st1)"

definition rebalance :: "real \<Rightarrow> real \<Rightarrow> real \<Rightarrow> sim \<Rightarrow> sim" where
  "rebalance equity px tgt st =
     (let targetPositionDollar = equity * tgt;
          targetUnits = targetPositionDollar / px;
          delta = targetUnits - position st;
          st' = (if delta > 0 then buy equity px delta st
                 else if delta < 0 then sell equity px delta st
                 else st)
      in st'\<lparr>currentExposure := (position st' * px) / max equity 1\<rparr>)"

text \<open>One iteration of the loop, for bar \<open>i\<close>.\<close>

definition barStep ::
  "OHLCVBar list \<Rightarrow> real option list \<Rightarrow> real option list \<Rightarrow> real \<Rightarrow> real \<Rightarrow> sim \<Rightarrow> nat \<Rightarrow> sim" where
  "barStep bars fastSMA slowSMA riskAversion initialCapital st i =
     (let bar = bars ! i;
          px = close bar;
          equity = cash st + position st * px;
          st1 = markBar initialCapital bar i st
      in case fastSMA ! i of
           None \<Rightarrow> st1\<lparr>prevFSMA := None, prevSSMA := slowSMA ! i\<rparr>
         | Some fSMA \<Rightarrow>
             (case slowSMA ! i of
                None \<Rightarrow> st1\<lparr>prevFSMA := Some fSMA, prevSSMA := None\<rparr>
              | Some sSMA \<Rightarrow>
                  (let st2 = st1\<lparr>signals := crossSignals riskAversion bar fSMA sSMA st1,
                                 prevFSMA := Some fSMA, prevSSMA := Some sSMA\<rparr>;
                       tgt = targetExposure riskAversion fSMA sSMA
                   in if \<bar>tgt - currentExposure st2\<bar> \<le> 0.01 then st2
                      else rebalance equity px tgt st2)))"

text \<open>The state after the first \<open>k\<close> iterations; bar \<open>i\<close> is processed in this state for \<open>k = i\<close>.\<close>

definition simulate ::
  "OHLCVBar list \<Rightarrow> real option list \<Rightarrow> real option list \<Rightarrow> real \<Rightarrow> real \<Rightarrow> nat \<Rightarrow> sim" where
  "simulate bars fastSMA slowSMA riskAversion initialCapital k =
     foldl (barStep bars fastSMA slowSMA riskAversion initialCapital) (initSim initialCapital) [0..<k]"

section \<open>Metrics and fitness of a run\<close>

text \<open>Annualised Sharpe ratio of the daily returns, zero for fewer than three samples or no variance.\<close>

definition sharpeOf :: "real list \<Rightarrow> real" where
  "sharpeOf drs =
     (let n = length drs
      in if n > 2
         then (let mean = foldl (\<lambda>s r. s + r) 0 drs / real n;
                   variance = foldl (\<lambda>s r. s + (r - mean) ^ 2) 0 drs / real n;
                   std = sqrt variance
               in if std > 0 then (mean / std) * sqrt 252 else 0)
         else 0)"

definition winRateOf :: "nat \<Rightarrow> nat \<Rightarrow> real" where
  "winRateOf w l = (if w + l > 0 then (real w / real (w + l)) * 100 else 0)"

text \<open>\<open>finalEquity\<close>: cash plus the position at the last close.\<close>

definition finalEquityOf :: "OHLCVBar list \<Rightarrow> sim \<Rightarrow> real" where
  "finalEquityOf bars st = cash st + position st * close (last bars)"

definition totalReturnOf :: "real \<Rightarrow> real \<Rightarrow> real" where
  "totalReturnOf initialCapital finalEquity = ((finalEquity - initialCapital) / initialCapital) * 100"

text \<open>\<open>baseFitness\<close>: the composite fitness of the unrounded metrics of the run.\<close>

definition baseFitnessOf :: "OHLCVBar list \<Rightarrow> real \<Rightarrow> sim \<Rightarrow> real" where
  "baseFitnessOf bars initialCapital st =
     computeFitness (sharpeOf (dailyReturns st))
       (totalReturnOf initialCapital (finalEquityOf bars st))
       (winRateOf (wins st) (losses st)) (maxDD st)"

text \<open>
  \<open>midEquity\<close>: the recorded equity at the midpoint index of the curve (the initial capital
  if there is no such point), and \<open>year2Ret\<close>, guarded against a non-positive \<open>midEquity\<close>.
\<close>

definition midEquityOf :: "real \<Rightarrow> (string \<times> real) list \<Rightarrow> real" where
  "midEquityOf initialCapital ec =
     (let midIdx = length ec div 2
      in if midIdx < length ec then snd (ec ! midIdx) else initialCapital)"

definition year2RetOf :: "real \<Rightarrow> real \<Rightarrow> real" where
  "year2RetOf finalEquity midEquity =
     (if midEquity > 0 then (finalEquity - midEquity) / midEquity else 0)"

definition consistencyPenalty :: "real \<Rightarrow> real" where
  "consistencyPenalty year2Ret =
     (if year2Ret < - 0.20 then 0.50 else if year2Ret < - 0.05 then 0.75 else 1.0)"

text \<open>
  The two average series of a run (\<open>fastSMA\<close> and \<open>slowSMA\<close> of \<open>runBacktest\<close>), and the
  loop state of the run after \<open>k\<close> bars.
\<close>

definition fastSMAOf :: "OHLCVBar list \<Rightarrow> real \<Rightarrow> real \<Rightarrow> real option list" where
  "fastSMAOf bars fastMAv slowMAv =
     computeSMA (map close bars) (fst (correctedPeriods fastMAv slowMAv))"

definition slowSMAOf :: "OHLCVBar list \<Rightarrow> real \<Rightarrow> real \<Rightarrow> real option list" where
  "slowSMAOf bars fastMAv slowMAv =
     computeSMA (map close bars) (snd (correctedPeriods fastMAv slowMAv))"

definition runState :: "OHLCVBar list \<Rightarrow> real \<Rightarrow> real \<Rightarrow> real \<Rightarrow> real \<Rightarrow> nat \<Rightarrow> sim" where
  "runState bars fastMAv slowMAv riskAversion initialCapital k =
     simulate bars (fastSMAOf bars fastMAv slowMAv) (slowSMAOf bars fastMAv slowMAv)
       riskAversion initialCapital k"

definition runBacktest ::
  "string list \<Rightarrow> (string \<times> string) list \<Rightarrow> OHLCVBar list \<Rightarrow> real \<Rightarrow> real \<Rightarrow> real \<Rightarrow> real
     \<Rightarrow> BacktestResult option" where
  "runBacktest TOP_15 SYMBOL_LABEL bars fastMAv slowMAv riskAversion initialCapital =
     (if length bars < 50 then None
      else
        (let fastP = fst (correctedPeriods fastMAv slowMAv);
             slowP = snd (correctedPeriods fastMAv slowMAv);
             st = runState bars fastMAv slowMAv riskAversion initialCapital (length bars);
             finalEquity = finalEquityOf bars st;
             totalTrades = wins st + losses st;
             baseFitness = baseFitnessOf bars initialCapital st;
             midEquity = midEquityOf initialCapital (curve st);
             year2Ret = year2RetOf finalEquity midEquity
         in Some
              \<lparr>totalReturn = toFixed 2 (totalReturnOf initialCapital finalEquity),
               sharpe = toFixed 3 (sharpeOf (dailyReturns st)),
               maxDrawdown = toFixed 2 (maxDD st),
               winRate = toFixed 1 (winRateOf (wins st) (losses st)),
               trades = totalTrades,
               fitness = toFixed 1 (baseFitness * consistencyPenalty year2Ret),
               equityCurve = curve st,
               tradeSignals = signals st,
               fastPeriod = fastP,
               slowPeriod = slowP,
               asset = assetLabel TOP_15 SYMBOL_LABEL 0\<rparr>))"


text \<open>No two neighbours of a list of actions are equal.\<close>

fun alternating :: "action list \<Rightarrow> bool" where
  "alternating (a # b # xs) = (a \<noteq> b \<and> alternating (b # xs))"
| "alternating xs = True"

text \<open>
  The crossing, if any, that the averages show between bar \<open>i - 1\<close> and bar \<open>i\<close>, and the
  crossings of the first \<open>k\<close> bars in order.
\<close>

definition crossAt :: "real option list \<Rightarrow> real option list \<Rightarrow> nat \<Rightarrow> action option" where
  "crossAt fs ss i =
     (if i = 0 then None
      else case fs ! (i - 1) of
        None \<Rightarrow> None
      | Some pf \<Rightarrow>
          (case ss ! (i - 1) of
             None \<Rightarrow> None
           | Some ps \<Rightarrow>
               (case fs ! i of
                  None \<Rightarrow> None
                | Some f \<Rightarrow>
                    (case ss ! i of
                       None \<Rightarrow> None
                     | Some s \<Rightarrow>
                         if f > s \<and> pf \<le> ps then Some Entry
                         else if f \<le> s \<and> pf > ps then Some Exit
                         else None))))"

definition crossingsUpTo :: "real option list \<Rightarrow> real option list \<Rightarrow> nat \<Rightarrow> action list" where
  "crossingsUpTo fs ss k = List.map_filter (crossAt fs ss) [0..<k]"

section \<open>Agents\<close>

text \<open>
  Agent ids are the strings \<open>AGT-001\<close>, \<open>AGT-002\<close>, ... everywhere in the program; an id
  is modelled by its number, so that \<open>parseInt(a.id.replace("AGT-", ""), 10) || 0\<close> is the
  id itself and \<open>AGT-${String(n).padStart(3, "0")}\<close> is \<open>n\<close>. The metric fields of an agent
  carry the prefix \<open>agent_\<close>, since a backtest result has fields of the same names.
\<close>

datatype status = Active | Extinct | Breeding | Newborn

record SMAGenome =
  fastMA :: real
  slowMA :: real
  riskAversion :: real
  assetIdx :: real

record AgentGenome =
  agent_id :: nat
  agent_name :: string
  generation :: nat
  agent_fitness :: real
  status :: status
  archetype :: archetype
  agent_sharpe :: real
  agent_maxDrawdown :: real
  agent_winRate :: real
  agent_totalReturn :: real
  agent_trades :: nat
  parentIds :: "nat list option"
  genome :: SMAGenome

definition BACKTEST_BARS :: nat where
  "BACKTEST_BARS = 730"

text \<open>
  \<open>priceHistory\<close> is an object from symbols to bar arrays, here an association list read
  with \<^const>\<open>map_of\<close>. A symbol that the table does not have (\<open>undefined\<close>) has no bars.
\<close>

definition backtestAgent ::
  "string list \<Rightarrow> (string \<times> string) list \<Rightarrow> (string \<times> OHLCVBar list) list \<Rightarrow> AgentGenome
     \<Rightarrow> BacktestResult option" where
  "backtestAgent TOP_15 SYMBOL_LABEL priceHistory agent =
     (case assetSymbol TOP_15 (assetIdx (genome agent)) of
        None \<Rightarrow> None
      | Some symb \<Rightarrow>
          (case map_of priceHistory symb of
             None \<Rightarrow> None
           | Some allBars \<Rightarrow>
               if length allBars < 50 then None
               else
                 (let bars = drop (length allBars - BACKTEST_BARS) allBars
                  in case runBacktest TOP_15 SYMBOL_LABEL bars (fastMA (genome agent))
                            (slowMA (genome agent)) (riskAversion (genome agent)) 100000 of
                       None \<Rightarrow> None
                     | Some result \<Rightarrow>
                         Some (result\<lparr>asset := (case map_of SYMBOL_LABEL symb of
                                                  None \<Rightarrow> symb | Some l \<Rightarrow> l)\<rparr>))))"

section \<open>Crossover and mutation\<close>

definition clamp01 :: "real \<Rightarrow> real" where
  "clamp01 v = min 1 (max 0 v)"

definition MUT :: real where
  "MUT = 0.12"

text \<open>\<open>blend a b\<close> with its two draws of \<open>rand()\<close>, in the order in which they are made.\<close>

definition blend :: "real \<Rightarrow> real \<Rightarrow> real \<Rightarrow> real \<Rightarrow> real" where
  "blend a b r1 r2 = clamp01 (a + (b - a) * r1 + (r2 - 0.5) * 2 * MUT)"

text \<open>
  \<open>rand\<close> gives the successive draws of the call: two for the asset gene, then two for
  each of the three blended genes.
\<close>

definition crossoverMutate :: "SMAGenome \<Rightarrow> SMAGenome \<Rightarrow> (nat \<Rightarrow> real) \<Rightarrow> SMAGenome" where
  "crossoverMutate p1 p2 rand =
     (let assetIdx' = (if rand 0 < 0.75
                       then (if rand 1 < 0.5 then assetIdx p1 else assetIdx p2)
                       else rand 1)
      in \<lparr>fastMA = blend (fastMA p1) (fastMA p2) (rand 2) (rand 3),
          slowMA = blend (slowMA p1) (slowMA p2) (rand 4) (rand 5),
          riskAversion = blend (riskAversion p1) (riskAversion p2) (rand 6) (rand 7),
          assetIdx = clamp01 assetIdx'\<rparr>)"

section \<open>The generation cycle (runGeneration)\<close>

text \<open>The object spread that copies the metrics of a result into an agent.\<close>

definition withResult :: "AgentGenome \<Rightarrow> BacktestResult \<Rightarrow> AgentGenome" where
  "withResult agent r =
     agent\<lparr>agent_fitness := fitness r,
           agent_sharpe := toFixed 2 (sharpe r),
           agent_maxDrawdown := toFixed 1 (maxDrawdown r),
           agent_winRate := toFixed 1 (winRate r),
           agent_totalReturn := toFixed 1 (totalReturn r),
           agent_trades := trades r\<rparr>"

definition scoreAgent :: "(AgentGenome \<Rightarrow> BacktestResult option) \<Rightarrow> AgentGenome \<Rightarrow> AgentGenome" where
  "scoreAgent bt agent = (case bt agent of None \<Rightarrow> agent | Some r \<Rightarrow> withResult agent r)"

text \<open>
  \<open>newResults\<close> after step 1: the results stored under the agents' ids, a later
  assignment to the same id replacing an earlier one.
\<close>

definition resultEntries ::
  "(AgentGenome \<Rightarrow> BacktestResult option) \<Rightarrow> AgentGenome list \<Rightarrow> (nat \<times> BacktestResult) list" where
  "resultEntries bt agents =
     List.map_filter (\<lambda>a. map_option (\<lambda>r. (agent_id a, r)) (bt a)) agents"

definition newResultsOf ::
  "(AgentGenome \<Rightarrow> BacktestResult option) \<Rightarrow> AgentGenome list \<Rightarrow> nat \<Rightarrow> BacktestResult option" where
  "newResultsOf bt agents = map_of (rev (resultEntries bt agents))"

text \<open>\<open>aCount[x]\<close>, the number \<open>n\<close> of scored agents (\<open>|| 1\<close>), and the penalty of a share.\<close>

definition assetCount ::
  "(nat \<Rightarrow> BacktestResult option) \<Rightarrow> AgentGenome list \<Rightarrow> string \<Rightarrow> nat" where
  "assetCount newResults backtested x =
     length (filter (\<lambda>a. case newResults (agent_id a) of None \<Rightarrow> False | Some r \<Rightarrow> asset r = x)
               backtested)"

definition scoredCount :: "(nat \<Rightarrow> BacktestResult option) \<Rightarrow> AgentGenome list \<Rightarrow> nat" where
  "scoredCount newResults backtested =
     (let n = length (filter (\<lambda>a. newResults (agent_id a) \<noteq> None) backtested)
      in if n = 0 then 1 else n)"

definition assetShare ::
  "(nat \<Rightarrow> BacktestResult option) \<Rightarrow> AgentGenome list \<Rightarrow> string \<Rightarrow> real" where
  "assetShare newResults backtested x =
     real (assetCount newResults backtested x) / real (scoredCount newResults backtested)"

definition nichePenalty :: "real \<Rightarrow> real" where
  "nichePenalty share =
     (if share > 0.40 then min 0.25 (((share - 0.40) / 0.60) * 0.25) else 0)"

definition nicheSelectFitness ::
  "(nat \<Rightarrow> BacktestResult option) \<Rightarrow> AgentGenome list \<Rightarrow> AgentGenome \<Rightarrow> real" where
  "nicheSelectFitness newResults backtested a =
     (case newResults (agent_id a) of
        None \<Rightarrow> agent_fitness a
      | Some r \<Rightarrow>
          (let share = assetShare newResults backtested (asset r);
               penalty = nichePenalty share
           in agent_fitness a * (1 - penalty)))"

text \<open>\<open>xs[Math.floor(r * xs.length)]\<close>, \<open>None\<close> for \<open>undefined\<close>.\<close>

definition pick :: "'a list \<Rightarrow> real \<Rightarrow> 'a option" where
  "pick xs r =
     (let j = \<lfloor>r * real (length xs)\<rfloor>
      in if 0 \<le> j \<and> nat j < length xs then Some (xs ! nat j) else None)"

definition BREED_PREFIXES :: "string list" where
  "BREED_PREFIXES = [''Alpha'', ''Beta'', ''Gamma'', ''Delta'', ''Sigma'', ''Omega'', ''Apex'',
     ''Vega'', ''Rho'', ''Theta'', ''Nova'', ''Flux'', ''Prime'', ''Quant'', ''Edge'', ''Nexus'',
     ''Pulse'', ''Blaze'', ''Cipher'', ''Drift'']"

definition BREED_SUFFIXES :: "string list" where
  "BREED_SUFFIXES = [''Hunter'', ''Rider'', ''Surge'', ''Strike'', ''Hawk'', ''Wolf'', ''Storm'',
     ''Pulse'', ''Wave'', ''Blade'', ''Force'', ''Shift'', ''Crest'', ''Scout'', ''Guard'', ''Run'',
     ''Burst'', ''Fade'', ''Watch'', ''Climb'']"

definition pickName :: "string list \<Rightarrow> real \<Rightarrow> string" where
  "pickName xs r = (case pick xs r of None \<Rightarrow> ''undefined'' | Some x \<Rightarrow> x)"

text \<open>
  The callback that makes offspring \<open>i\<close>. It draws twelve random numbers, here
  \<open>rand (12 * i)\<close> to \<open>rand (12 * i + 11)\<close>. Reading \<open>genome\<close> of an \<open>undefined\<close> parent throws
  a \<open>TypeError\<close>: the result is \<open>None\<close>.
\<close>

definition makeOffspring ::
  "AgentGenome list \<Rightarrow> nat \<Rightarrow> nat \<Rightarrow> (nat \<Rightarrow> real) \<Rightarrow> nat \<Rightarrow> AgentGenome option" where
  "makeOffspring topBreed maxId currentGen rand i =
     (case pick topBreed (rand (12 * i)) of
        None \<Rightarrow> None
      | Some p1 \<Rightarrow>
          (case pick topBreed (rand (12 * i + 1)) of
             None \<Rightarrow> None
           | Some p2 \<Rightarrow>
               (let childGenome = crossoverMutate (genome p1) (genome p2)
                                    (\<lambda>j. rand (12 * i + 2 + j));
                    arch = archetypeFromGenome (fastMA childGenome) (slowMA childGenome);
                    px = pickName BREED_PREFIXES (rand (12 * i + 10));
                    sx = pickName BREED_SUFFIXES (rand (12 * i + 11))
                in Some
                     \<lparr>agent_id = maxId + i + 1,
                      agent_name = px @ '' '' @ sx,
                      generation = currentGen + 1,
                      agent_fitness = 50, status = Newborn, archetype = arch,
                      agent_sharpe = 0, agent_maxDrawdown = 0, agent_winRate = 0,
                      agent_totalReturn = 0, agent_trades = 0,
                      parentIds = Some [agent_id p1, agent_id p2],
                      genome = childGenome\<rparr>)))"

text \<open>All offspring, or \<open>None\<close> as soon as one callback throws.\<close>

fun collect :: "'a option list \<Rightarrow> 'a list option" where
  "collect [] = Some []"
| "collect (None # xs) = None"
| "collect (Some x # xs) = (case collect xs of None \<Rightarrow> None | Some ys \<Rightarrow> Some (x # ys))"

definition cullCountOf :: "nat \<Rightarrow> nat" where
  "cullCountOf n = max 1 (nat \<lfloor>real n * 0.20\<rfloor>)"

definition breedCountOf :: "nat \<Rightarrow> nat" where
  "breedCountOf n = max 2 (nat \<lfloor>real n * 0.30\<rfloor>)"

text \<open>Step 5, for one agent of the old population.\<close>

definition surviveAgent :: "nat list \<Rightarrow> AgentGenome list \<Rightarrow> AgentGenome \<Rightarrow> AgentGenome" where
  "surviveAgent cullIds backtested a =
     (if agent_id a \<in> set cullIds then a\<lparr>status := Extinct\<rparr>
      else
        (let bt = find (\<lambda>b. agent_id b = agent_id a) backtested;
             status' = (if status a = Newborn then Active else status a)
         in case bt of Some b \<Rightarrow> b\<lparr>status := status'\<rparr> | None \<Rightarrow> a\<lparr>status := status'\<rparr>))"

text \<open>
  Steps 1 and 2: \<open>backtested\<close> (the non-extinct agents with their fresh metrics) and
  \<open>sorted\<close>, its stable sort, descending in the selection fitness.
\<close>

definition backtestedOf :: "(AgentGenome \<Rightarrow> BacktestResult option) \<Rightarrow> AgentGenome list \<Rightarrow> AgentGenome list" where
  "backtestedOf bt agents = map (scoreAgent bt) (filter (\<lambda>a. status a \<noteq> Extinct) agents)"

definition sortedOf :: "(AgentGenome \<Rightarrow> BacktestResult option) \<Rightarrow> AgentGenome list \<Rightarrow> AgentGenome list" where
  "sortedOf bt agents =
     (let active = filter (\<lambda>a. status a \<noteq> Extinct) agents;
          backtested = backtestedOf bt agents;
          newResults = newResultsOf bt active
      in sort_key (\<lambda>a. - nicheSelectFitness newResults backtested a) backtested)"

datatype failure = PriceDataNotLoaded | GenerationFailed

record generationResult =
  allNext :: "AgentGenome list"
  culled :: "AgentGenome list"
  born :: "AgentGenome list"

text \<open>
  \<open>runGeneration\<close> up to the assembly of the next generation, with the summary lists
  \<open>culled\<close> (from \<open>bottom\<close>) and \<open>born\<close> (from \<open>offspring\<close>). \<open>Math.random\<close> is the sequence
  \<open>rand\<close> of its successive values. An exception in the \<open>try\<close> block ends in the \<open>catch\<close>
  branch, which reports "Generation Failed" and leaves the population as it was:
  \<open>Inl GenerationFailed\<close>. The reporting figures (averages, portfolio snapshot, trade log),
  the persistence calls and the user interface state that follow the assembly are not
  modelled.
\<close>

definition runGeneration ::
  "string list \<Rightarrow> (string \<times> string) list \<Rightarrow> (string \<times> OHLCVBar list) list \<Rightarrow> (nat \<Rightarrow> real)
     \<Rightarrow> AgentGenome list \<Rightarrow> nat \<Rightarrow> failure + generationResult" where
  "runGeneration TOP_15 SYMBOL_LABEL priceHistory rand agents currentGen =
     (if priceHistory = [] then Inl PriceDataNotLoaded
      else
        (let bt = backtestAgent TOP_15 SYMBOL_LABEL priceHistory;
             backtested = backtestedOf bt agents;
             sorted = sortedOf bt agents;
             cullCount = cullCountOf (length sorted);
             bottom = drop (length sorted - cullCount) sorted;
             topBreed = take (breedCountOf (length sorted)) sorted;
             cullIds = map agent_id bottom;
             maxId = foldr max (map agent_id agents) 0
         in case collect (map (makeOffspring topBreed maxId currentGen rand) [0..<cullCount]) of
              None \<Rightarrow> Inl GenerationFailed
            | Some rawOffspring \<Rightarrow>
                (let offspring = map (scoreAgent bt) rawOffspring;
                     survived = map (surviveAgent cullIds backtested) agents
                 in Inr \<lparr>allNext = survived @ offspring, culled = bottom, born = offspring\<rparr>)))"

section \<open>Example inputs\<close>

text \<open>Fifty bars at the constant price 100.\<close>

definition flatBar :: OHLCVBar where
  "flatBar = \<lparr>date = ''2024-01-01'', open_px = 100, high = 100, low = 100, close = 100, volume = 1\<rparr>"

definition flatBars :: "OHLCVBar list" where
  "flatBars = replicate 50 flatBar"

text \<open>A symbol table of 28 entries (the tickers of the preprocessing script).\<close>

definition exampleTable :: "string list" where
  "exampleTable = [''XBT'', ''ETH'', ''XDG'', ''XRP'', ''LTC'', ''XLM'', ''XMR'', ''ADA'', ''BCH'',
     ''LINK'', ''ATOM'', ''ETC'', ''ZEC'', ''DASH'', ''EOS'', ''XTZ'', ''QTUM'', ''WAVES'', ''BAT'',
     ''ICX'', ''LSK'', ''MLN'', ''NANO'', ''OMG'', ''PAXG'', ''REP'', ''SC'', ''GNO'']"

text \<open>An active agent with a given id, a result, and a population of ten agents.\<close>

definition exampleAgent :: "nat \<Rightarrow> AgentGenome" where
  "exampleAgent i =
     \<lparr>agent_id = i, agent_name = ''Alpha Hunter'', generation = 0, agent_fitness = 50,
      status = Active, archetype = Hybrid, agent_sharpe = 0, agent_maxDrawdown = 0,
      agent_winRate = 0, agent_totalReturn = 0, agent_trades = 0, parentIds = None,
      genome = \<lparr>fastMA = 1 / 2, slowMA = 1 / 2, riskAversion = 1 / 2, assetIdx = 0\<rparr>\<rparr>"

definition exampleResult :: BacktestResult where
  "exampleResult =
     \<lparr>totalReturn = 0, sharpe = 0, maxDrawdown = 0, winRate = 0, trades = 0, fitness = 40,
      equityCurve = [], tradeSignals = [], fastPeriod = 28, slowPeriod = 110, asset = ''BTC''\<rparr>"

definition population10 :: "AgentGenome list" where
  "population10 = map exampleAgent [3, 4, 5, 6, 7, 8, 9, 10, 11, 12]"

text \<open>
  A series of 50 bars: 35 closes at 1, 14 closes at 100 and a last close at 88. With both
  period genes 0 (periods 5 and 20) and no risk aversion, the run enters at bar 35 and
  holds the position to the end. \<open>T88\<close> is the value of \<open>tanh\<close> at the entry and \<open>E88\<close> the
  final equity of that run.
\<close>

definition barAt :: "real \<Rightarrow> OHLCVBar" where
  "barAt c = \<lparr>date = ''2024-01-01'', open_px = c, high = c, low = c, close = c, volume = 1\<rparr>"





text \<open>
  Two more series of 50 bars: a block of five closes at 100 among closes at 1, placed
  from bar 35 on and from bar 15 on.
\<close>

definition closesRound :: "real list" where
  "closesRound = replicate 35 1 @ replicate 5 100 @ replicate 10 1"

definition barsRound :: "OHLCVBar list" where
  "barsRound = map barAt closesRound"

definition closesLate :: "real list" where
  "closesLate = replicate 15 1 @ replicate 5 100 @ replicate 30 1"

definition barsLate :: "OHLCVBar list" where
  "barsLate = map barAt closesLate"

section \<open>Invariants of the bar loop\<close>


definition sigInv :: "int \<Rightarrow> int \<Rightarrow> nat \<Rightarrow> sim \<Rightarrow> bool" where
  "sigInv fp sp k st \<longleftrightarrow>
     (signals st \<noteq> [] \<longrightarrow>
        fp \<le> int k \<and> sp \<le> int k
        \<and> (\<exists>pf ps. prevFSMA st = Some pf \<and> prevSSMA st = Some ps
              \<and> (action (last (signals st)) = Entry \<longleftrightarrow> pf > ps)))
     \<and> alternating (map action (signals st))"




section \<open>Results about the decoders and the fitness formula\<close>

lemma toFixed_nonneg: "0 \<le> x \<Longrightarrow> 0 \<le> toFixed d x"
  by (simp add: toFixed_def)

lemma toFixed_le_int:
  assumes "0 \<le> x" and "x \<le> real_of_int k"
  shows "toFixed d x \<le> real_of_int k"
proof -
  have "x * 10 ^ d + 1 / 2 \<le> real_of_int (k * 10 ^ d) + 1 / 2"
    using assms by (simp add: mult_right_mono)
  then have "\<lfloor>x * 10 ^ d + 1 / 2\<rfloor> \<le> \<lfloor>real_of_int (k * 10 ^ d) + 1 / 2\<rfloor>"
    by (rule floor_mono)
  also have "\<lfloor>real_of_int (k * 10 ^ d) + 1 / 2\<rfloor> = k * 10 ^ d"
    by linarith
  finally have "real_of_int \<lfloor>x * 10 ^ d + 1 / 2\<rfloor> \<le> real_of_int k * 10 ^ d"
    by (metis of_int_le_iff of_int_mult of_int_numeral of_int_power)
  then have "real_of_int \<lfloor>x * 10 ^ d + 1 / 2\<rfloor> / 10 ^ d \<le> real_of_int k"
    by (simp add: divide_le_eq)
  then show ?thesis
    using assms(1) by (simp add: toFixed_def)
qed

text \<open>
  C6: for all (finite) metrics, \<open>computeFitness\<close> returns a value between 0 and 100.
\<close>

theorem computeFitness_range:
  "0 \<le> computeFitness shp ret wr dd \<and> computeFitness shp ret wr dd \<le> 100"
proof -
  define raw where "raw = 0.40 * ((min (max shp (-2)) 4 + 2) / 6)
      + 0.30 * ((min (max ret (-50)) 150 + 50) / 200)
      + 0.20 * (wr / 100) + 0.10 * (1 - min (max dd 0) 60 / 60)"
  define y where "y = min (max raw 0) 1 * 100"
  have y: "0 \<le> y" "y \<le> real_of_int 100"
    by (simp_all add: y_def)
  have "computeFitness shp ret wr dd = toFixed 1 y"
    by (simp add: computeFitness_def Let_def y_def raw_def)
  moreover have "0 \<le> toFixed 1 y"
    using y(1) by (rule toFixed_nonneg)
  moreover have "toFixed 1 y \<le> real_of_int 100"
    using y by (rule toFixed_le_int)
  ultimately show ?thesis by simp
qed

text \<open>
  C7: whatever the two genes are (in particular for genes in \<open>[0,1]\<close>), the periods the
  simulator uses after its correction satisfy \<open>fastPeriod < slowPeriod\<close>, and the
  correction sets \<open>slowPeriod = fastPeriod + max(10, ceil(fastPeriod * 0.25))\<close> exactly
  when the decoded fast period is not below the decoded slow period.
\<close>

theorem correctedPeriods_fast_lt_slow:
  "fst (correctedPeriods fastMAv slowMAv) < snd (correctedPeriods fastMAv slowMAv)
   \<and> fst (correctedPeriods fastMAv slowMAv) = decodeFastMA fastMAv
   \<and> snd (correctedPeriods fastMAv slowMAv) =
       (if decodeFastMA fastMAv \<ge> decodeSlowMA slowMAv
        then decodeFastMA fastMAv + max 10 \<lceil>real_of_int (decodeFastMA fastMAv) * 0.25\<rceil>
        else decodeSlowMA slowMAv)"
  by (auto simp: correctedPeriods_def Let_def max_def)

section \<open>Moving averages\<close>

lemma length_prefixFrom: "length (prefixFrom a ps) = Suc (length ps)"
  by (induction ps arbitrary: a) auto

lemma prefixFrom_nth: "k \<le> length ps \<Longrightarrow> prefixFrom a ps ! k = a + sum_list (take k ps)"
proof (induction ps arbitrary: a k)
  case Nil
  then show ?case by simp
next
  case (Cons p ps)
  show ?case
  proof (cases k)
    case 0
    then show ?thesis by simp
  next
    case (Suc j)
    with Cons.prems have "j \<le> length ps" by simp
    from Cons.IH[OF this, of "a + p"] Suc show ?thesis by simp
  qed
qed

lemma length_computeSMA: "length (computeSMA prices p) = length prices"
  by (simp add: computeSMA_def Let_def)

lemma computeSMA_nth:
  assumes "i < length prices" and "0 < p"
  shows "computeSMA prices p ! i =
           (if int i < p - 1 then None
            else Some ((sum_list (take (i + 1) prices) - sum_list (take (nat (int i + 1 - p)) prices))
                       / real_of_int p))"
proof -
  have a: "i + 1 \<le> length prices" using assms by simp
  have b: "nat (int i + 1 - p) \<le> length prices" if "\<not> int i < p - 1"
    using assms that by linarith
  show ?thesis
    using assms(1) prefixFrom_nth[OF a, of 0] b prefixFrom_nth[of "nat (int i + 1 - p)" prices 0]
    by (simp add: computeSMA_def Let_def)
qed


lemma simulate_Suc:
  "simulate bars fs ss ra ic (Suc k) = barStep bars fs ss ra ic (simulate bars fs ss ra ic k) k"
  by (simp add: simulate_def)

lemma simulate_0: "simulate bars fs ss ra ic 0 = initSim ic"
  by (simp add: simulate_def)

lemma decodeFastMA_ge: "5 \<le> decodeFastMA v"
  by (simp add: decodeFastMA_def)

lemma decodeSlowMA_ge: "20 \<le> decodeSlowMA v"
  by (simp add: decodeSlowMA_def)

lemma correctedPeriods_lt: "fst (correctedPeriods f s) < snd (correctedPeriods f s)"
  by (auto simp: correctedPeriods_def Let_def max_def)

lemma correctedPeriods_pos:
  "0 < fst (correctedPeriods f s)" "0 < snd (correctedPeriods f s)"
proof -
  have "fst (correctedPeriods f s) = decodeFastMA f"
    by (simp add: correctedPeriods_def Let_def)
  then show "0 < fst (correctedPeriods f s)"
    using decodeFastMA_ge[of f] by simp
  then show "0 < snd (correctedPeriods f s)"
    using correctedPeriods_lt[of f s] by simp
qed

section \<open>Constant prices\<close>





lemma runBacktest_fields:
  assumes "50 \<le> length bars"
  shows "\<exists>r. runBacktest TOP_15 SYMBOL_LABEL bars fastMAv slowMAv ra ic = Some r
    \<and> trades r = wins (runState bars fastMAv slowMAv ra ic (length bars))
                 + losses (runState bars fastMAv slowMAv ra ic (length bars))
    \<and> totalReturn r = toFixed 2 (totalReturnOf ic
          (finalEquityOf bars (runState bars fastMAv slowMAv ra ic (length bars))))
    \<and> winRate r = toFixed 1 (winRateOf (wins (runState bars fastMAv slowMAv ra ic (length bars)))
          (losses (runState bars fastMAv slowMAv ra ic (length bars))))
    \<and> tradeSignals r = signals (runState bars fastMAv slowMAv ra ic (length bars))
    \<and> equityCurve r = curve (runState bars fastMAv slowMAv ra ic (length bars))"
  using assms by (simp add: runBacktest_def Let_def)



section \<open>Alternation of the trade signals\<close>

lemma alternating_snoc:
  "alternating (xs @ [a]) = (alternating xs \<and> (xs = [] \<or> last xs \<noteq> a))"
  by (induction xs rule: alternating.induct) auto

lemma buy_keeps:
  "signals (buy e p d st) = signals st"
  "prevFSMA (buy e p d st) = prevFSMA st"
  "prevSSMA (buy e p d st) = prevSSMA st"
  "curve (buy e p d st) = curve st"
  by (simp_all add: buy_def Let_def)

lemma sell_keeps:
  "signals (sell e p d st) = signals st"
  "prevFSMA (sell e p d st) = prevFSMA st"
  "prevSSMA (sell e p d st) = prevSSMA st"
  "curve (sell e p d st) = curve st"
  by (simp_all add: sell_def Let_def)

lemma rebalance_keeps:
  "signals (rebalance e p t st) = signals st"
  "prevFSMA (rebalance e p t st) = prevFSMA st"
  "prevSSMA (rebalance e p t st) = prevSSMA st"
  "curve (rebalance e p t st) = curve st"
  by (simp_all add: rebalance_def Let_def buy_keeps sell_keeps)

lemma markBar_keeps:
  "signals (markBar ic bar i st) = signals st"
  "prevFSMA (markBar ic bar i st) = prevFSMA st"
  "prevSSMA (markBar ic bar i st) = prevSSMA st"
  "cash (markBar ic bar i st) = cash st"
  "position (markBar ic bar i st) = position st"
  "currentExposure (markBar ic bar i st) = currentExposure st"
  "entryEquity (markBar ic bar i st) = entryEquity st"
  "wins (markBar ic bar i st) = wins st"
  "losses (markBar ic bar i st) = losses st"
  by (simp_all add: markBar_def Let_def)

lemma barStep_signals:
  "signals (barStep bars fs ss ra ic st i) =
     (case fs ! i of None \<Rightarrow> signals st
      | Some f \<Rightarrow> (case ss ! i of None \<Rightarrow> signals st
          | Some s \<Rightarrow> crossSignals ra (bars ! i) f s (markBar ic (bars ! i) i st)))"
  by (simp add: barStep_def Let_def rebalance_keeps markBar_keeps split: option.splits)

lemma barStep_prev:
  "prevFSMA (barStep bars fs ss ra ic st i) = fs ! i"
  "prevSSMA (barStep bars fs ss ra ic st i) =
     (case fs ! i of None \<Rightarrow> ss ! i | Some f \<Rightarrow> ss ! i)"
  by (simp_all add: barStep_def Let_def rebalance_keeps split: option.splits)

lemma sigInv_barStep:
  assumes inv: "sigInv fp sp k st"
    and fs: "fs ! k = None \<longleftrightarrow> int k < fp - 1"
    and ss: "ss ! k = None \<longleftrightarrow> int k < sp - 1"
  shows "sigInv fp sp (Suc k) (barStep bars fs ss ra ic st k)"
proof (cases "fs ! k")
  case None
  then have "signals st = []" using inv fs by (auto simp: sigInv_def)
  then show ?thesis using None by (simp add: sigInv_def barStep_signals)
next
  case (Some f)
  note F = this
  show ?thesis
  proof (cases "ss ! k")
    case None
    then have "signals st = []" using inv ss by (auto simp: sigInv_def)
    then show ?thesis using None F by (simp add: sigInv_def barStep_signals)
  next
    case (Some s)
    have k: "fp \<le> int (Suc k)" "sp \<le> int (Suc k)" using F Some fs ss by auto
    let ?st1 = "markBar ic (bars ! k) k st"
    have sg: "signals (barStep bars fs ss ra ic st k) = crossSignals ra (bars ! k) f s ?st1"
      by (simp add: barStep_signals F Some)
    have pv: "prevFSMA (barStep bars fs ss ra ic st k) = Some f"
      "prevSSMA (barStep bars fs ss ra ic st k) = Some s"
      by (simp_all add: barStep_prev F Some)
    show ?thesis
    proof (cases "signals st = []")
      case True
      then show ?thesis
        unfolding sigInv_def sg pv using k
        by (auto simp: crossSignals_def markBar_keeps split: option.splits)
    next
      case False
      then obtain pf ps where p: "prevFSMA st = Some pf" "prevSSMA st = Some ps"
        "action (last (signals st)) = Entry \<longleftrightarrow> pf > ps"
        and alt: "alternating (map action (signals st))"
        using inv by (auto simp: sigInv_def)
      have la: "last (map action (signals st)) = action (last (signals st))"
        using False by (simp add: last_map)
      have ex: "action (last (signals st)) \<noteq> Entry \<Longrightarrow> action (last (signals st)) = Exit"
        by (cases "action (last (signals st))") auto
      show ?thesis
        unfolding sigInv_def sg pv using k p alt False la ex
        by (auto simp: crossSignals_def markBar_keeps alternating_snoc)
    qed
  qed
qed

lemma sigInv_simulate:
  assumes "0 < fp" and "0 < sp" and "k \<le> length bars"
  shows "sigInv fp sp k (simulate bars (computeSMA (map close bars) fp) (computeSMA (map close bars) sp) ra ic k)"
  using assms(3)
proof (induction k)
  case 0
  show ?case by (simp add: simulate_0 sigInv_def initSim_def)
next
  case (Suc k)
  then have k: "k < length (map close bars)" by simp
  have "sigInv fp sp k (simulate bars (computeSMA (map close bars) fp) (computeSMA (map close bars) sp) ra ic k)"
    using Suc by simp
  then show ?case
    unfolding simulate_Suc
    by (rule sigInv_barStep)
       (simp_all add: computeSMA_nth[OF k assms(1)] computeSMA_nth[OF k assms(2)])
qed

text \<open>
  C10: in every result of \<open>runBacktest\<close> the recorded trade signals alternate between
  entry and exit: no two consecutive signals have the same action.
\<close>

theorem tradeSignals_alternate:
  assumes "runBacktest TOP_15 SYMBOL_LABEL bars fastMAv slowMAv ra initialCapital = Some r"
  shows "alternating (map action (tradeSignals r))"
proof -
  have len: "50 \<le> length bars"
    using assms by (simp add: runBacktest_def split: if_splits)
  have "sigInv (fst (correctedPeriods fastMAv slowMAv)) (snd (correctedPeriods fastMAv slowMAv))
          (length bars) (runState bars fastMAv slowMAv ra initialCapital (length bars))"
    unfolding runState_def fastSMAOf_def slowSMAOf_def
    by (rule sigInv_simulate[OF correctedPeriods_pos]) simp
  then have "alternating (map action
      (signals (runState bars fastMAv slowMAv ra initialCapital (length bars))))"
    by (simp add: sigInv_def)
  moreover have "tradeSignals r =
      signals (runState bars fastMAv slowMAv ra initialCapital (length bars))"
    using runBacktest_fields[OF len, of TOP_15 SYMBOL_LABEL fastMAv slowMAv ra initialCapital]
      assms by auto
  ultimately show ?thesis by simp
qed

section \<open>No leverage, no short selling\<close>











section \<open>The asset index\<close>



section \<open>Selection and breeding\<close>

lemma nichePenalty_mono: "s \<le> t \<Longrightarrow> nichePenalty s \<le> nichePenalty t"
  by (auto simp: nichePenalty_def min_def divide_le_eq)

lemma length_filter_imp:
  "(\<And>x. x \<in> set xs \<Longrightarrow> P x \<Longrightarrow> Q x) \<Longrightarrow> length (filter P xs) \<le> length (filter Q xs)"
  by (induction xs) auto

lemma assetShare_fraction:
  assumes a: "a \<in> set backtested" and r: "newResults (agent_id a) = Some r"
  shows "assetShare newResults backtested (asset r)
           = real (length (filter (\<lambda>b. \<exists>q. newResults (agent_id b) = Some q \<and> asset q = asset r)
                             backtested))
             / real (length (filter (\<lambda>b. newResults (agent_id b) \<noteq> None) backtested))"
    and "0 < assetShare newResults backtested (asset r)"
    and "assetShare newResults backtested (asset r) \<le> 1"
proof -
  let ?P = "\<lambda>b. \<exists>q. newResults (agent_id b) = Some q \<and> asset q = asset r"
  let ?Q = "\<lambda>b. newResults (agent_id b) \<noteq> None"
  have cnt: "assetCount newResults backtested (asset r) = length (filter ?P backtested)"
    unfolding assetCount_def
    by (rule arg_cong[where f = length], rule filter_cong) (auto split: option.splits)
  have "a \<in> set (filter ?P backtested)" using a r by simp
  then have p: "0 < length (filter ?P backtested)" by (rule length_pos_if_in_set)
  have le: "length (filter ?P backtested) \<le> length (filter ?Q backtested)"
    by (rule length_filter_imp) auto
  then have q: "0 < length (filter ?Q backtested)" using p by (rule less_le_trans[rotated])
  then have n: "scoredCount newResults backtested = length (filter ?Q backtested)"
    by (simp add: scoredCount_def Let_def)
  show "assetShare newResults backtested (asset r)
           = real (length (filter ?P backtested)) / real (length (filter ?Q backtested))"
    by (simp add: assetShare_def cnt n)
  show "0 < assetShare newResults backtested (asset r)"
    using p q by (simp add: assetShare_def cnt n)
  show "assetShare newResults backtested (asset r) \<le> 1"
    using le q by (simp add: assetShare_def cnt n)
qed

text \<open>
  C8: the penalty of a share \<open>s\<close> is 0 up to 0.40 and \<open>min(0.25, (s - 0.40) / 0.60 * 0.25)\<close>
  above, it never decreases when the share grows, it lies between 0 and 0.25, and the
  selection fitness of a scored agent is its stored fitness times one minus the penalty of
  the share of its asset. That share is the number of scored agents whose result has the
  asset, divided by the number of scored agents; it is positive and at most 1.
\<close>

theorem niche_penalty:
  "nichePenalty s = (if s \<le> 0.40 then 0 else min 0.25 ((s - 0.40) / 0.60 * 0.25))
   \<and> (s \<le> t \<longrightarrow> nichePenalty s \<le> nichePenalty t)
   \<and> 0 \<le> nichePenalty s \<and> nichePenalty s \<le> 0.25
   \<and> (newResults (agent_id a) = Some r \<longrightarrow>
        nicheSelectFitness newResults backtested a
          = agent_fitness a * (1 - nichePenalty (assetShare newResults backtested (asset r))))
   \<and> (a \<in> set backtested \<and> newResults (agent_id a) = Some r \<longrightarrow>
        assetShare newResults backtested (asset r)
          = real (length (filter (\<lambda>b. \<exists>q. newResults (agent_id b) = Some q \<and> asset q = asset r)
                            backtested))
            / real (length (filter (\<lambda>b. newResults (agent_id b) \<noteq> None) backtested))
        \<and> 0 < assetShare newResults backtested (asset r)
        \<and> assetShare newResults backtested (asset r) \<le> 1)"
proof -
  have 1: "nichePenalty s = (if s \<le> 0.40 then 0 else min 0.25 ((s - 0.40) / 0.60 * 0.25))"
    by (auto simp: nichePenalty_def)
  have 2: "0 \<le> nichePenalty s" "nichePenalty s \<le> 0.25"
    by (auto simp: nichePenalty_def)
  have 3: "nicheSelectFitness newResults backtested a
          = agent_fitness a * (1 - nichePenalty (assetShare newResults backtested (asset r)))"
    if "newResults (agent_id a) = Some r"
    using that by (simp add: nicheSelectFitness_def Let_def)
  have 4: "s \<le> t \<longrightarrow> nichePenalty s \<le> nichePenalty t"
    using nichePenalty_mono[of s t] by simp
  have 5: "newResults (agent_id a) = Some r \<longrightarrow>
        nicheSelectFitness newResults backtested a
          = agent_fitness a * (1 - nichePenalty (assetShare newResults backtested (asset r)))"
    using 3 by simp
  have 6: "a \<in> set backtested \<and> newResults (agent_id a) = Some r \<longrightarrow>
        assetShare newResults backtested (asset r)
          = real (length (filter (\<lambda>b. \<exists>q. newResults (agent_id b) = Some q \<and> asset q = asset r)
                            backtested))
            / real (length (filter (\<lambda>b. newResults (agent_id b) \<noteq> None) backtested))
        \<and> 0 < assetShare newResults backtested (asset r)
        \<and> assetShare newResults backtested (asset r) \<le> 1"
    using assetShare_fraction[of a backtested newResults r] by (intro impI) (elim conjE, intro conjI)
  show ?thesis
    by (intro conjI) (rule 1, rule 4, rule 2(1), rule 2(2), rule 5, rule 6)
qed

theorem niche_penalty_witness:
  "nichePenalty (7 / 10) = 1 / 8 \<and> nichePenalty (7 / 10) \<le> nichePenalty 1
   \<and> nicheSelectFitness (\<lambda>i. Some exampleResult) [exampleAgent 3, exampleAgent 4] (exampleAgent 3)
        = 50 * (1 - 1 / 4)
   \<and> assetShare (\<lambda>i. Some exampleResult) [exampleAgent 3, exampleAgent 4] ''BTC'' = 2 / 2"
proof -
  have a: "assetShare (\<lambda>i. Some exampleResult) [exampleAgent 3, exampleAgent 4] ''BTC'' = 1"
    by (simp add: assetShare_def assetCount_def scoredCount_def exampleResult_def)
  have b: "nichePenalty 1 = 1 / 4" by (simp add: nichePenalty_def)
  have c: "agent_fitness (exampleAgent 3) = 50" "asset exampleResult = ''BTC''"
    by (simp_all add: exampleAgent_def exampleResult_def)
  show ?thesis
    using niche_penalty[of "7 / 10" 1 "\<lambda>i. Some exampleResult" "exampleAgent 3" exampleResult
        "[exampleAgent 3, exampleAgent 4]"]
    by (simp add: a b c)
qed

lemma scoreAgent_keeps:
  "agent_id (scoreAgent bt a) = agent_id a" "status (scoreAgent bt a) = status a"
  by (simp_all add: scoreAgent_def withResult_def split: option.splits)

lemma pick_Some:
  assumes "xs \<noteq> []" and "0 \<le> r" and "r < 1"
  shows "\<exists>x. pick xs r = Some x"
proof -
  have len: "0 < real (length xs)" using assms(1) by simp
  have "r * real (length xs) < real (length xs)"
    using assms(3) len by simp
  then have "\<lfloor>r * real (length xs)\<rfloor> < int (length xs)"
    by (simp add: floor_less_iff)
  moreover have "0 \<le> \<lfloor>r * real (length xs)\<rfloor>"
    using assms(2) by simp
  ultimately show ?thesis by (auto simp: pick_def Let_def nat_less_iff)
qed

lemma collect_all_Some:
  assumes "\<forall>x\<in>set xs. \<exists>y. x = Some y"
  shows "\<exists>ys. collect xs = Some ys \<and> ys = map the xs"
  using assms
proof (induction xs)
  case Nil
  show ?case by simp
next
  case (Cons x xs)
  then obtain y where "x = Some y" by auto
  moreover obtain ys where "collect xs = Some ys" "ys = map the xs" using Cons by auto
  ultimately show ?case by simp
qed

lemma makeOffspring_Some:
  assumes "topBreed \<noteq> []" and "\<forall>k. 0 \<le> rand k \<and> rand k < 1"
  shows "\<exists>c. makeOffspring topBreed maxId gen rand i = Some c \<and> status c = Newborn"
proof -
  obtain p1 where p1: "pick topBreed (rand (12 * i)) = Some p1"
    using pick_Some[OF assms(1)] assms(2) by blast
  obtain p2 where p2: "pick topBreed (rand (12 * i + 1)) = Some p2"
    using pick_Some[OF assms(1)] assms(2) by blast
  show ?thesis using p1 p2 by (simp add: makeOffspring_def Let_def)
qed

lemma cullCountOf_le: "1 \<le> n \<Longrightarrow> cullCountOf n \<le> n"
proof -
  assume n: "1 \<le> n"
  have "real n * 0.20 \<le> real n" by simp
  then have "\<lfloor>real n * 0.20\<rfloor> \<le> int n" by (simp add: floor_le_iff)
  then have "nat \<lfloor>real n * 0.20\<rfloor> \<le> n" by linarith
  then show ?thesis using n by (simp add: cullCountOf_def)
qed

lemma cullCountOf_pos: "1 \<le> cullCountOf n"
  by (simp add: cullCountOf_def)

lemma surviveAgent_extinct:
  "status (surviveAgent cullIds backtested a) = Extinct
     \<longleftrightarrow> agent_id a \<in> set cullIds \<or> status a = Extinct"
  by (simp add: surviveAgent_def Let_def split: option.splits)

lemma length_filter_disj:
  "length (filter (\<lambda>a. A a \<or> E a) xs)
     = length (filter E xs) + length (filter A (filter (\<lambda>a. \<not> E a) xs))"
  by (induction xs) auto

lemma length_filter_key_mem:
  assumes "distinct (map f xs)" and "S \<subseteq> f ` set xs"
  shows "length (filter (\<lambda>a. f a \<in> S) xs) = card S"
proof -
  have "length (filter (\<lambda>a. f a \<in> S) xs) = length (filter (\<lambda>y. y \<in> S) (map f xs))"
    by (simp add: filter_map comp_def)
  also have "\<dots> = card (set (filter (\<lambda>y. y \<in> S) (map f xs)))"
  proof -
    have "distinct (filter (\<lambda>y. y \<in> S) (map f xs))" using assms(1) by (rule distinct_filter)
    then show ?thesis by (rule distinct_card[symmetric])
  qed
  also have "set (filter (\<lambda>y. y \<in> S) (map f xs)) = S"
    using assms(2) by auto
  finally show ?thesis .
qed

lemma distinct_map_sort_key:
  "distinct (map g (sort_key f xs)) = distinct (map g xs)"
proof -
  have "mset (map g (sort_key f xs)) = mset (map g xs)" by simp
  then show ?thesis by (rule mset_eq_imp_distinct_iff)
qed

lemma sortedOf_facts:
  "length (sortedOf bt agents) = length (filter (\<lambda>a. status a \<noteq> Extinct) agents)"
  "map agent_id (backtestedOf bt agents) = map agent_id (filter (\<lambda>a. status a \<noteq> Extinct) agents)"
  "set (sortedOf bt agents) = set (backtestedOf bt agents)"
  "distinct (map agent_id (sortedOf bt agents)) = distinct (map agent_id (backtestedOf bt agents))"
  by (simp_all add: sortedOf_def backtestedOf_def Let_def scoreAgent_keeps distinct_map_sort_key
        del: distinct_map)

text \<open>
  C3: when price data is loaded, the agent ids are distinct and \<open>N \<ge> 1\<close> agents are not
  extinct, a generation cycle (with draws of \<open>Math.random\<close> in \<open>[0,1)\<close>) completes, culls
  exactly \<open>max(1, floor(0.20 * N))\<close> agents, which become extinct, and creates exactly that
  many newborn offspring, so that again \<open>N\<close> agents are not extinct.
\<close>

theorem generation_keeps_population_size:
  assumes ph: "priceHistory \<noteq> []"
    and ids: "distinct (map agent_id agents)"
    and N: "1 \<le> length (filter (\<lambda>a. status a \<noteq> Extinct) agents)"
    and rnd: "\<forall>k. 0 \<le> rand k \<and> rand k < 1"
  shows "\<exists>res. runGeneration TOP_15 SYMBOL_LABEL priceHistory rand agents currentGen = Inr res
    \<and> length (culled res) = max 1 (nat \<lfloor>0.20 * real (length (filter (\<lambda>a. status a \<noteq> Extinct) agents))\<rfloor>)
    \<and> length (filter (\<lambda>a. status a = Extinct) (allNext res))
        = length (filter (\<lambda>a. status a = Extinct) agents)
          + max 1 (nat \<lfloor>0.20 * real (length (filter (\<lambda>a. status a \<noteq> Extinct) agents))\<rfloor>)
    \<and> length (born res) = max 1 (nat \<lfloor>0.20 * real (length (filter (\<lambda>a. status a \<noteq> Extinct) agents))\<rfloor>)
    \<and> (\<forall>a\<in>set (born res). status a = Newborn)
    \<and> length (filter (\<lambda>a. status a \<noteq> Extinct) (allNext res))
        = length (filter (\<lambda>a. status a \<noteq> Extinct) agents)"
proof -
  define active where "active = filter (\<lambda>a. status a \<noteq> Extinct) agents"
  define n where "n = length active"
  define bt where "bt = backtestAgent TOP_15 SYMBOL_LABEL priceHistory"
  define backtested where "backtested = backtestedOf bt agents"
  define sorted where "sorted = sortedOf bt agents"
  define c where "c = cullCountOf n"
  define bottom where "bottom = drop (n - c) sorted"
  define topBreed where "topBreed = take (breedCountOf n) sorted"
  define cullIds where "cullIds = map agent_id bottom"
  define maxId where "maxId = foldr max (map agent_id agents) 0"
  have n1: "1 \<le> n" using N by (simp add: n_def active_def)
  have ceq: "c = max 1 (nat \<lfloor>0.20 * real n\<rfloor>)"
    by (simp add: c_def cullCountOf_def mult.commute)
  have c1: "1 \<le> c" and cn: "c \<le> n"
    using cullCountOf_pos[of n] cullCountOf_le[OF n1] by (simp_all add: c_def)
  have ls: "length sorted = n"
    by (simp add: sorted_def sortedOf_facts n_def active_def)
  have lb: "length bottom = c" using cn by (simp add: bottom_def ls)
  have tb: "topBreed \<noteq> []"
    using n1 ls by (auto simp: topBreed_def breedCountOf_def)
  \<comment> \<open>the offspring\<close>
  have "\<forall>x\<in>set (map (makeOffspring topBreed maxId currentGen rand) [0..<c]). \<exists>y. x = Some y"
    using makeOffspring_Some[OF tb rnd] by (auto, blast)
  then obtain raw where raw: "collect (map (makeOffspring topBreed maxId currentGen rand) [0..<c]) = Some raw"
    and raweq: "raw = map the (map (makeOffspring topBreed maxId currentGen rand) [0..<c])"
    using collect_all_Some by blast
  have lraw: "length raw = c" by (simp add: raweq)
  have sraw: "\<forall>a\<in>set raw. status a = Newborn"
  proof
    fix a assume "a \<in> set raw"
    then obtain i where "a = the (makeOffspring topBreed maxId currentGen rand i)"
      by (auto simp: raweq)
    then show "status a = Newborn"
      using makeOffspring_Some[OF tb rnd, of maxId currentGen i] by auto
  qed
  define offspring where "offspring = map (scoreAgent bt) raw"
  have loff: "length offspring = c" by (simp add: offspring_def lraw)
  have soff: "\<forall>a\<in>set offspring. status a = Newborn"
    using sraw by (auto simp: offspring_def scoreAgent_keeps)
  define survived where "survived = map (surviveAgent cullIds backtested) agents"
  define res where "res = \<lparr>allNext = survived @ offspring, culled = bottom, born = offspring\<rparr>"
  have run: "runGeneration TOP_15 SYMBOL_LABEL priceHistory rand agents currentGen = Inr res"
    using ph raw
    by (simp add: runGeneration_def Let_def bt_def[symmetric] sorted_def[symmetric] ls
          c_def[symmetric] topBreed_def[symmetric] maxId_def[symmetric] res_def survived_def
          offspring_def cullIds_def bottom_def backtested_def)
  \<comment> \<open>the culled ids are ids of distinct active agents\<close>
  have dact: "distinct (map agent_id active)"
    using ids by (simp add: active_def distinct_map_filter)
  have idsorted: "set (map agent_id sorted) = agent_id ` set active"
  proof -
    have "set (map agent_id sorted) = set (map agent_id (backtestedOf bt agents))"
      by (simp add: sorted_def sortedOf_facts(3))
    then show ?thesis by (simp add: sortedOf_facts(2) active_def)
  qed
  have dsorted: "distinct (map agent_id sorted)"
    using dact by (simp add: sorted_def sortedOf_facts(4) sortedOf_facts(2) active_def del: distinct_map)
  have dcull: "distinct cullIds"
    unfolding cullIds_def bottom_def drop_map[symmetric] using dsorted by (rule distinct_drop)
  have subcull: "set cullIds \<subseteq> agent_id ` set active"
  proof -
    have "set cullIds \<subseteq> set (map agent_id sorted)"
      unfolding cullIds_def bottom_def drop_map[symmetric] by (rule set_drop_subset)
    then show ?thesis by (simp only: idsorted)
  qed
  have "card (set cullIds) = length cullIds"
    using dcull by (rule distinct_card)
  then have ccard: "card (set cullIds) = c"
    by (simp only: cullIds_def length_map lb)
  have hit: "length (filter (\<lambda>a. agent_id a \<in> set cullIds) active) = c"
    using length_filter_key_mem[OF dact subcull] ccard by simp
  \<comment> \<open>counting\<close>
  have ext_surv: "length (filter (\<lambda>a. status a = Extinct) survived)
                    = length (filter (\<lambda>a. status a = Extinct) agents) + c"
  proof -
    have "length (filter (\<lambda>a. status a = Extinct) survived)
            = length (filter (\<lambda>a. agent_id a \<in> set cullIds \<or> status a = Extinct) agents)"
      by (simp add: survived_def filter_map comp_def surviveAgent_extinct)
    also have "\<dots> = length (filter (\<lambda>a. status a = Extinct) agents)
                      + length (filter (\<lambda>a. agent_id a \<in> set cullIds) active)"
      unfolding active_def by (rule length_filter_disj)
    finally show ?thesis by (simp add: hit)
  qed
  have ext_off: "filter (\<lambda>a. status a = Extinct) offspring = []"
    using soff by (auto simp: filter_empty_conv)
  have ext_all: "length (filter (\<lambda>a. status a = Extinct) (survived @ offspring))
                   = length (filter (\<lambda>a. status a = Extinct) agents) + c"
    using ext_surv ext_off by simp
  have tot: "length (filter (\<lambda>a. status a = Extinct) xs)
               + length (filter (\<lambda>a. status a \<noteq> Extinct) xs) = length xs" for xs :: "AgentGenome list"
    using sum_length_filter_compl[of "\<lambda>a. status a = Extinct" xs] by (simp add: comp_def)
  have "length (survived @ offspring) = length agents + c"
    by (simp add: survived_def loff)
  then have alive_all: "length (filter (\<lambda>a. status a \<noteq> Extinct) (survived @ offspring)) = n"
    using tot[of "survived @ offspring"] tot[of agents] ext_all
    by (simp add: n_def active_def)
  show ?thesis
    using run lb ext_all loff soff alive_all
    by (intro exI[of _ res]) (simp add: res_def ceq n_def active_def)
qed

theorem generation_keeps_population_size_witness:
  "\<exists>res. runGeneration exampleTable [] [(''XBT'', flatBars)] (\<lambda>k. 1 / 2) population10 0 = Inr res
     \<and> length (culled res) = 2 \<and> length (born res) = 2
     \<and> length (filter (\<lambda>a. status a \<noteq> Extinct) (allNext res)) = 10"
proof -
  have ph: "[(''XBT'', flatBars)] \<noteq> []" by simp
  have ids: "distinct (map agent_id population10)"
    by (simp add: population10_def exampleAgent_def)
  have n: "length (filter (\<lambda>a. status a \<noteq> Extinct) population10) = 10"
    by (simp add: population10_def exampleAgent_def)
  have N: "1 \<le> length (filter (\<lambda>a. status a \<noteq> Extinct) population10)"
    by (simp add: n)
  have rnd: "\<forall>k. 0 \<le> (\<lambda>k::nat. 1 / 2 :: real) k \<and> (\<lambda>k::nat. 1 / 2 :: real) k < 1" by simp
  have c: "max 1 (nat \<lfloor>0.20 * real (10::nat)\<rfloor>) = 2" by simp
  obtain res where
    "runGeneration exampleTable [] [(''XBT'', flatBars)] (\<lambda>k. 1 / 2) population10 0 = Inr res"
    "length (culled res) = 2" "length (born res) = 2"
    "length (filter (\<lambda>a. status a \<noteq> Extinct) (allNext res)) = 10"
    using generation_keeps_population_size[OF ph ids N rnd, of exampleTable "[]" 0]
    unfolding n c by blast
  then show ?thesis by blast
qed

text \<open>
  C1 (the code fails here): with price data loaded and no active agent (an empty
  population, or extinct agents only) the cycle does not complete. The cull count is
  \<open>max(1, 0) = 1\<close>, the breeding pool is empty, and making the first offspring reads
  \<open>genome\<close> of an \<open>undefined\<close> parent.
\<close>

theorem empty_population_fails:
  "runGeneration TOP_15 SYMBOL_LABEL [(''BTC'', [])] (\<lambda>k. 1 / 2) [] 0 = Inl GenerationFailed
   \<and> runGeneration TOP_15 SYMBOL_LABEL [(''BTC'', [])] (\<lambda>k. 1 / 2)
         [(exampleAgent 3)\<lparr>status := Extinct\<rparr>] 0 = Inl GenerationFailed"
  by (simp add: runGeneration_def sortedOf_def backtestedOf_def cullCountOf_def makeOffspring_def
        pick_def Let_def)

section \<open>The fitness of a run\<close>













lemma cp00: "correctedPeriods 0 0 = (5, 20)"
  by (simp add: correctedPeriods_def decodeFastMA_def decodeSlowMA_def Let_def)


lemma replicate_num: "replicate (numeral k) x = x # replicate (pred_numeral k) x"
  by (simp add: numeral_eq_Suc)


























section \<open>Example runs\<close>


text \<open>
  The actions of the recorded signals are the crossings of the two average series,
  whatever is traded. On the second example series the run records an entry and then an
  exit; on the third, where the fast average is above the slow one as soon as both are
  defined, the first signal is an exit.
\<close>

lemma simulate_prev:
  "prevFSMA (simulate bars fs ss ra ic k) = (if k = 0 then None else fs ! (k - 1))"
  "prevSSMA (simulate bars fs ss ra ic k) = (if k = 0 then None else ss ! (k - 1))"
proof -
  show "prevFSMA (simulate bars fs ss ra ic k) = (if k = 0 then None else fs ! (k - 1))"
    by (cases k) (simp_all add: simulate_0 initSim_def simulate_Suc barStep_prev)
  show "prevSSMA (simulate bars fs ss ra ic k) = (if k = 0 then None else ss ! (k - 1))"
    by (cases k) (simp_all add: simulate_0 initSim_def simulate_Suc barStep_prev split: option.splits)
qed

lemma map_filter_snoc: "List.map_filter f (xs @ [x]) = List.map_filter f xs @ (case f x of None \<Rightarrow> [] | Some y \<Rightarrow> [y])"
  by (simp add: List.map_filter_def split: option.splits)

lemma signals_crossings:
  "map action (signals (simulate bars fs ss ra ic k)) = crossingsUpTo fs ss k"
proof (induction k)
  case 0
  show ?case by (simp add: simulate_0 initSim_def crossingsUpTo_def List.map_filter_def)
next
  case (Suc k)
  let ?st = "simulate bars fs ss ra ic k"
  have step: "map action (signals (barStep bars fs ss ra ic ?st k))
                = map action (signals ?st) @ (case crossAt fs ss k of None \<Rightarrow> [] | Some a \<Rightarrow> [a])"
    by (simp add: barStep_signals crossSignals_def markBar_keeps simulate_prev crossAt_def
          split: option.splits)
  show ?case
    unfolding simulate_Suc step Suc.IH
    by (simp add: crossingsUpTo_def map_filter_snoc)
qed

lemma crossings_round:
  "crossingsUpTo (fastSMAOf barsRound 0 0) (slowSMAOf barsRound 0 0) 50 = [Entry, Exit]"
proof -
  have m: "map close barsRound = closesRound" by (simp add: barsRound_def barAt_def comp_def)
  have f: "fastSMAOf barsRound 0 0 =
      replicate 4 None @ replicate 31 (Some 1)
      @ [Some (104 / 5), Some (203 / 5), Some (302 / 5), Some (401 / 5), Some 100,
         Some (401 / 5), Some (302 / 5), Some (203 / 5), Some (104 / 5)]
      @ replicate 6 (Some 1)"
    unfolding fastSMAOf_def cp00 fst_conv m closesRound_def computeSMA_def Let_def
    by (simp add: upt_rec_numeral replicate_num)
  have s: "slowSMAOf barsRound 0 0 =
      replicate 19 None @ replicate 16 (Some 1)
      @ [Some (119 / 20), Some (109 / 10), Some (317 / 20), Some (104 / 5)]
      @ replicate 11 (Some (103 / 4))"
    unfolding slowSMAOf_def cp00 snd_conv m closesRound_def computeSMA_def Let_def
    by (simp add: upt_rec_numeral replicate_num)
  show ?thesis
    unfolding f s crossingsUpTo_def
    by (simp add: numeral_eq_Suc map_filter_snoc map_filter_simps crossAt_def)
qed

lemma crossings_late:
  "crossingsUpTo (fastSMAOf barsLate 0 0) (slowSMAOf barsLate 0 0) 50 = [Exit]"
proof -
  have m: "map close barsLate = closesLate" by (simp add: barsLate_def barAt_def comp_def)
  have f: "fastSMAOf barsLate 0 0 =
      replicate 4 None @ replicate 11 (Some 1)
      @ [Some (104 / 5), Some (203 / 5), Some (302 / 5), Some (401 / 5), Some 100,
         Some (401 / 5), Some (302 / 5), Some (203 / 5), Some (104 / 5)]
      @ replicate 26 (Some 1)"
    unfolding fastSMAOf_def cp00 fst_conv m closesLate_def computeSMA_def Let_def
    by (simp add: upt_rec_numeral replicate_num)
  have s: "slowSMAOf barsLate 0 0 =
      replicate 19 None @ replicate 16 (Some (103 / 4))
      @ [Some (104 / 5), Some (317 / 20), Some (109 / 10), Some (119 / 20)]
      @ replicate 11 (Some 1)"
    unfolding slowSMAOf_def cp00 snd_conv m closesLate_def computeSMA_def Let_def
    by (simp add: upt_rec_numeral replicate_num)
  show ?thesis
    unfolding f s crossingsUpTo_def
    by (simp add: numeral_eq_Suc map_filter_snoc map_filter_simps crossAt_def)
qed

theorem tradeSignals_alternate_witness:
  "alternating (map action (tradeSignals (the (runBacktest exampleTable [] barsRound 0 0 (1 / 2) 100000))))
   \<and> map action (tradeSignals (the (runBacktest exampleTable [] barsRound 0 0 (1 / 2) 100000)))
       = [Entry, Exit]
   \<and> alternating (map action (tradeSignals (the (runBacktest exampleTable [] barsLate 0 0 (1 / 2) 100000))))
   \<and> map action (tradeSignals (the (runBacktest exampleTable [] barsLate 0 0 (1 / 2) 100000)))
       = [Exit]"
proof -
  have l: "length barsRound = 50" "length barsLate = 50"
    by (simp_all add: barsRound_def closesRound_def barsLate_def closesLate_def)
  have "runBacktest exampleTable [] barsRound 0 0 (1 / 2) 100000 \<noteq> None"
    by (simp add: runBacktest_def l Let_def)
  then obtain r where r: "runBacktest exampleTable [] barsRound 0 0 (1 / 2) 100000 = Some r"
    by blast
  have "runBacktest exampleTable [] barsLate 0 0 (1 / 2) 100000 \<noteq> None"
    by (simp add: runBacktest_def l Let_def)
  then obtain q where q: "runBacktest exampleTable [] barsLate 0 0 (1 / 2) 100000 = Some q"
    by blast
  have sr: "tradeSignals r = signals (runState barsRound 0 0 (1 / 2) 100000 50)"
    using r by (auto simp: runBacktest_def Let_def l)
  have sq: "tradeSignals q = signals (runState barsLate 0 0 (1 / 2) 100000 50)"
    using q by (auto simp: runBacktest_def Let_def l)
  have ar: "map action (tradeSignals r) = [Entry, Exit]"
    unfolding sr runState_def signals_crossings by (rule crossings_round)
  have aq: "map action (tradeSignals q) = [Exit]"
    unfolding sq runState_def signals_crossings by (rule crossings_late)
  show ?thesis
    using tradeSignals_alternate[OF r] tradeSignals_alternate[OF q] ar aq
    unfolding r q option.sel by simp
qed

end
